theory Spec2Isabelle
  imports Complex_Main "HOL-Library.Log_Nat"
begin

section \<open>Values of numpy's float64 arrays\<close>

text \<open>
  The interpolation module (\<^verbatim>\<open>src/interpolation.py\<close>) computes on numpy arrays of
  float64. An array entry is a real number (in a run of the module, one that float64
  represents), one of the two infinities, or NaN. Every operation of the module on
  such entries rounds as float64 does, so the theorems below are about the values that
  the module computes, not about exact real arithmetic.
\<close>

datatype fl = Fin real | PInf | NInf | NaN

fun isnan :: "fl \<Rightarrow> bool" where
  "isnan NaN = True"
| "isnan _ = False"

fun isinf :: "fl \<Rightarrow> bool" where
  "isinf PInf = True"
| "isinf NInf = True"
| "isinf _ = False"

text \<open>The sign of a value that is not NaN, and the infinity (or NaN) of a sign.\<close>

fun fl_sign :: "fl \<Rightarrow> real" where
  "fl_sign (Fin a) = sgn a"
| "fl_sign PInf = 1"
| "fl_sign NInf = - 1"
| "fl_sign NaN = 0"

definition inf_of_sign :: "real \<Rightarrow> fl" where
  "inf_of_sign s = (if 0 < s then PInf else if s < 0 then NInf else NaN)"

subsection \<open>Rounding to float64\<close>

text \<open>
  IEEE 754 binary64 with the default rounding, to nearest with ties to the even
  significand. \<open>exponent a\<close> is the binary exponent of a positive real,
  \<open>floor (log2 a)\<close>, computed on integers by the bit length. A real of exponent \<open>e\<close> is
  rounded to a multiple of \<open>2 ^ (e - 52)\<close>, and to a multiple of \<open>2 ^ -1074\<close> below
  the normal range; from \<open>2 ^ 1024 - 2 ^ 970\<close> on, half a unit above the largest
  float64, the result is an infinity. The sign of zero is not represented: \<open>-0.0\<close> and
  \<open>0.0\<close> are both \<open>Fin 0\<close>.
\<close>

definition pow2 :: "int \<Rightarrow> real" where
  "pow2 k = (if 0 \<le> k then 2 ^ nat k else 1 / 2 ^ nat (- k))"

definition exponent :: "real \<Rightarrow> int" where
  "exponent a = (if 1 \<le> a then bitlen \<lfloor>a\<rfloor> - 1 else - bitlen (\<lceil>1 / a\<rceil> - 1))"

definition round_even :: "real \<Rightarrow> int" where
  "round_even y =
     (if y - of_int \<lfloor>y\<rfloor> < 1 / 2 then \<lfloor>y\<rfloor>
      else if 1 / 2 < y - of_int \<lfloor>y\<rfloor> then \<lfloor>y\<rfloor> + 1
      else if even \<lfloor>y\<rfloor> then \<lfloor>y\<rfloor> else \<lfloor>y\<rfloor> + 1)"

definition rnd :: "real \<Rightarrow> fl" where
  "rnd x =
     (if x = 0 then Fin 0
      else if 2 ^ 1024 - 2 ^ 970 \<le> \<bar>x\<bar> then inf_of_sign x
      else Fin (sgn x
                * of_int (round_even (\<bar>x\<bar> / pow2 (max (exponent \<bar>x\<bar>) (- 1022) - 52)))
                * pow2 (max (exponent \<bar>x\<bar>) (- 1022) - 52)))"

subsection \<open>Arithmetic\<close>

text \<open>
  Sum, difference, product, quotient and square root are the exact results rounded, as
  IEEE 754 requires of them; on the infinities and NaN they follow the standard. A
  Python literal such as \<^verbatim>\<open>0.05\<close> or \<^verbatim>\<open>1e-10\<close> is the rounded decimal,
  \<open>rnd 0.05\<close>.
\<close>

fun fl_neg :: "fl \<Rightarrow> fl" where
  "fl_neg (Fin a) = Fin (- a)"
| "fl_neg PInf = NInf"
| "fl_neg NInf = PInf"
| "fl_neg NaN = NaN"

fun fl_add :: "fl \<Rightarrow> fl \<Rightarrow> fl" where
  "fl_add NaN _ = NaN"
| "fl_add _ NaN = NaN"
| "fl_add (Fin a) (Fin b) = rnd (a + b)"
| "fl_add PInf NInf = NaN"
| "fl_add NInf PInf = NaN"
| "fl_add PInf _ = PInf"
| "fl_add _ PInf = PInf"
| "fl_add NInf _ = NInf"
| "fl_add _ NInf = NInf"

definition fl_sub :: "fl \<Rightarrow> fl \<Rightarrow> fl" where
  "fl_sub a b = fl_add a (fl_neg b)"

text \<open>A product with an infinite factor: the infinity of the product of the signs, NaN for \<open>0 * inf\<close>.\<close>

fun fl_mul :: "fl \<Rightarrow> fl \<Rightarrow> fl" where
  "fl_mul NaN _ = NaN"
| "fl_mul _ NaN = NaN"
| "fl_mul (Fin a) (Fin b) = rnd (a * b)"
| "fl_mul a b = inf_of_sign (fl_sign a * fl_sign b)"

text \<open>
  Division: \<open>a / 0\<close> is an infinity of the sign of \<open>a\<close> and \<open>0 / 0\<close> is NaN (numpy
  warns and does not raise); a finite value over an infinity is zero; an infinity over
  an infinity is NaN. A zero divisor counts as \<open>+0\<close>.
\<close>

fun fl_div :: "fl \<Rightarrow> fl \<Rightarrow> fl" where
  "fl_div NaN _ = NaN"
| "fl_div _ NaN = NaN"
| "fl_div (Fin a) (Fin b) = (if b = 0 then inf_of_sign (sgn a) else rnd (a / b))"
| "fl_div (Fin a) _ = Fin 0"
| "fl_div a (Fin b) = inf_of_sign (fl_sign a * (if b < 0 then - 1 else 1))"
| "fl_div _ _ = NaN"

fun fl_sqrt :: "fl \<Rightarrow> fl" where
  "fl_sqrt (Fin a) = (if a < 0 then NaN else rnd (sqrt a))"
| "fl_sqrt PInf = PInf"
| "fl_sqrt NInf = NaN"
| "fl_sqrt NaN = NaN"

text \<open>Comparisons are exact, and false with NaN.\<close>

fun fl_lt :: "fl \<Rightarrow> fl \<Rightarrow> bool" where
  "fl_lt NaN _ = False"
| "fl_lt _ NaN = False"
| "fl_lt (Fin a) (Fin b) = (a < b)"
| "fl_lt NInf NInf = False"
| "fl_lt NInf _ = True"
| "fl_lt _ NInf = False"
| "fl_lt PInf _ = False"
| "fl_lt _ PInf = True"

text \<open>\<^verbatim>\<open>v ** 2\<close> with the integer 2, which numpy computes as the square \<open>v * v\<close>.\<close>

definition fl_sq :: "fl \<Rightarrow> fl" where
  "fl_sq v = fl_mul v v"

text \<open>
  \<^verbatim>\<open>base ** exponent\<close> with a float exponent. The cases that IEEE 754 fixes for
  \<open>pow\<close> are written out: anything to the power 0 is 1, and 1 to any power is 1, also
  for NaN; a zero or infinite base or exponent; a negative base with an exponent that
  is not integral. Elsewhere the value is what the library computes, which need not be
  the rounded exact power: it is the parameter \<open>pw\<close>.
\<close>

definition is_integral :: "real \<Rightarrow> bool" where
  "is_integral b = (b = of_int \<lfloor>b\<rfloor>)"

definition is_odd_integral :: "real \<Rightarrow> bool" where
  "is_odd_integral b = (is_integral b \<and> odd \<lfloor>b\<rfloor>)"

fun fl_abs_cmp1 :: "fl \<Rightarrow> real" where
  "fl_abs_cmp1 (Fin a) = \<bar>a\<bar> - 1"
| "fl_abs_cmp1 _ = 1"

definition fl_pow :: "(real \<Rightarrow> real \<Rightarrow> fl) \<Rightarrow> fl \<Rightarrow> fl \<Rightarrow> fl" where
  "fl_pow pw x y =
     (if y = Fin 0 \<or> x = Fin 1 then Fin 1
      else if isnan x \<or> isnan y then NaN
      else case y of
        PInf \<Rightarrow> (if fl_abs_cmp1 x < 0 then Fin 0 else if fl_abs_cmp1 x = 0 then Fin 1 else PInf)
      | NInf \<Rightarrow> (if fl_abs_cmp1 x < 0 then PInf else if fl_abs_cmp1 x = 0 then Fin 1 else Fin 0)
      | Fin b \<Rightarrow>
         (case x of
            PInf \<Rightarrow> (if 0 < b then PInf else Fin 0)
          | NInf \<Rightarrow> (if 0 < b then (if is_odd_integral b then NInf else PInf) else Fin 0)
          | Fin a \<Rightarrow>
             (if a = 0 then (if 0 < b then Fin 0 else PInf)
              else if a < 0 \<and> \<not> is_integral b then NaN
              else pw a b)
          | NaN \<Rightarrow> NaN)
      | NaN \<Rightarrow> NaN)"

text \<open>
  \<^verbatim>\<open>a.min()\<close> and \<^verbatim>\<open>a.max()\<close>: NaN if an entry is NaN; an empty array raises
  (\<open>None\<close> here, turned into the error by the caller).
\<close>

definition fl_min2 :: "fl \<Rightarrow> fl \<Rightarrow> fl" where
  "fl_min2 a b = (if isnan a \<or> isnan b then NaN else if fl_lt b a then b else a)"

definition fl_max2 :: "fl \<Rightarrow> fl \<Rightarrow> fl" where
  "fl_max2 a b = (if isnan a \<or> isnan b then NaN else if fl_lt a b then b else a)"

fun np_min :: "fl list \<Rightarrow> fl option" where
  "np_min [] = None"
| "np_min (a # as) = Some (foldl fl_min2 a as)"

fun np_max :: "fl list \<Rightarrow> fl option" where
  "np_max [] = None"
| "np_max (a # as) = Some (foldl fl_max2 a as)"

text \<open>
  \<^verbatim>\<open>np.argmin\<close>: the index of the first smallest entry; the first NaN if there is one.
  \<open>argmin_scan bi bv i ds\<close> scans \<open>ds\<close>, whose first entry has index \<open>i\<close>, with the
  best index \<open>bi\<close> and its value \<open>bv\<close> so far. (The module calls it on a non-empty
  array only; on an empty one numpy raises.)
\<close>

fun argmin_scan :: "nat \<Rightarrow> fl \<Rightarrow> nat \<Rightarrow> fl list \<Rightarrow> nat" where
  "argmin_scan bi bv i [] = bi"
| "argmin_scan bi bv i (d # ds) =
     (if \<not> isnan bv \<and> (isnan d \<or> fl_lt d bv) then argmin_scan i d (Suc i) ds
      else argmin_scan bi bv (Suc i) ds)"

fun np_argmin :: "fl list \<Rightarrow> nat" where
  "np_argmin [] = 0"
| "np_argmin (d # ds) = argmin_scan 0 d 1 ds"

section \<open>Errors and diagnostics\<close>

text \<open>
  Every exception the module can raise is a value. \<open>ValueError\<close> and \<open>RuntimeError\<close>
  carry the message the module itself gives them. The other constructors are the
  exceptions numpy raises inside the module: operands that cannot be broadcast
  together, a boolean index whose length does not match, a reduction of an empty
  array, a negative number of samples for \<^verbatim>\<open>linspace\<close>. \<open>ExternalError\<close> is an
  exception of \<^verbatim>\<open>scipy.interpolate.griddata\<close>, which the module does not catch.
\<close>

datatype error =
    ValueError string
  | RuntimeError string
  | BroadcastError
  | MaskIndexError
  | EmptyReductionError
  | LinspaceError
  | ExternalError string

type_synonym grid = "fl list list"

section \<open>The libraries\<close>

text \<open>
  \<^verbatim>\<open>scipy.interpolate.Rbf\<close>, \<^verbatim>\<open>scipy.interpolate.griddata\<close> and PyKrige are not
  part of the repository. Each is a parameter: a function from what the module passes
  to either the message of the exception it raises or the grid of values it returns.
  \<open>Rbf\<close> stands for the fit and the evaluation on the mesh together, the two kriging
  functions for the construction and \<^verbatim>\<open>execute('grid', xi, yi)\<close> together.
  \<open>float_power\<close> is the power of a finite base and a finite exponent outside the cases
  that IEEE 754 fixes. \<open>long_sum\<close> is \<^verbatim>\<open>np.sum\<close> on an array of 8 entries or more,
  where numpy adds in blocks and pairs.
\<close>

record externals =
  Rbf :: "fl list \<Rightarrow> fl list \<Rightarrow> fl list \<Rightarrow> string \<Rightarrow> fl \<Rightarrow> grid \<Rightarrow> grid \<Rightarrow> string + grid"
  griddata :: "fl list \<Rightarrow> fl list \<Rightarrow> fl list \<Rightarrow> grid \<Rightarrow> grid \<Rightarrow> string \<Rightarrow> string + grid"
  OrdinaryKriging :: "fl list \<Rightarrow> fl list \<Rightarrow> fl list \<Rightarrow> string \<Rightarrow> fl list \<Rightarrow> fl list \<Rightarrow> string + grid"
  UniversalKriging :: "fl list \<Rightarrow> fl list \<Rightarrow> fl list \<Rightarrow> string \<Rightarrow> fl list \<Rightarrow> fl list \<Rightarrow> string + grid"
  float_power :: "real \<Rightarrow> real \<Rightarrow> fl"
  long_sum :: "fl list \<Rightarrow> fl"

text \<open>
  \<^verbatim>\<open>np.sum\<close>: an array of fewer than 8 entries is added from left to right,
  starting from zero.
\<close>

definition np_sum :: "externals \<Rightarrow> fl list \<Rightarrow> fl" where
  "np_sum ext xs = (if length xs < 8 then foldl fl_add (Fin 0) xs else long_sum ext xs)"

section \<open>The method registry\<close>

text \<open>
  The class attribute \<^verbatim>\<open>METHODS\<close> is a dict from identifier to label; Python keeps
  its insertion order, so it is an association list here. The state of the module is
  its flag \<^verbatim>\<open>KRIGING_AVAILABLE\<close> and this dict. Importing the module sets the flag, by
  whether PyKrige can be imported (with a warning if it cannot), builds the dict of the
  base methods and, if the flag is set, updates it with the two kriging methods.
\<close>

record module_state =
  KRIGING_AVAILABLE :: bool
  METHODS :: "(string \<times> string) list"

definition BASE_METHODS :: "(string \<times> string) list" where
  "BASE_METHODS =
     [(''idw'', ''Inverse Distance Weighting''),
      (''linear'', ''Linear Interpolation''),
      (''cubic'', ''Cubic Interpolation''),
      (''nearest'', ''Nearest Neighbor''),
      (''rbf_multiquadric'', ''RBF (Multiquadric)''),
      (''rbf_gaussian'', ''RBF (Gaussian)''),
      (''rbf_thin_plate'', ''RBF (Thin Plate Spline)''),
      (''rbf_linear'', ''RBF (Linear)'')]"

definition KRIGING_METHODS :: "(string \<times> string) list" where
  "KRIGING_METHODS =
     [(''kriging_ordinary'', ''Ordinary Kriging''),
      (''kriging_universal'', ''Universal Kriging'')]"

text \<open>\<^verbatim>\<open>d[k] = v\<close> and \<^verbatim>\<open>d.update(other)\<close> on an ordered dict.\<close>

fun dict_set :: "(string \<times> string) list \<Rightarrow> string \<Rightarrow> string \<Rightarrow> (string \<times> string) list" where
  "dict_set [] k v = [(k, v)]"
| "dict_set (p # ps) k v = (if fst p = k then (k, v) # ps else p # dict_set ps k v)"

definition dict_update ::
  "(string \<times> string) list \<Rightarrow> (string \<times> string) list \<Rightarrow> (string \<times> string) list" where
  "dict_update d other = foldl (\<lambda>acc (k, v). dict_set acc k v) d other"

definition import_module :: "bool \<Rightarrow> module_state" where
  "import_module pykrige_importable =
     (let st = \<lparr> KRIGING_AVAILABLE = pykrige_importable, METHODS = BASE_METHODS \<rparr>
      in if KRIGING_AVAILABLE st
         then st \<lparr> METHODS := dict_update (METHODS st) KRIGING_METHODS \<rparr>
         else st)"

definition import_warnings :: "bool \<Rightarrow> string list" where
  "import_warnings pykrige_importable =
     (if pykrige_importable then []
      else [''PyKrige not available. Kriging methods will be disabled.''])"

definition keys :: "(string \<times> string) list \<Rightarrow> string list" where
  "keys d = map fst d"

text \<open>
  \<^verbatim>\<open>str(list_of_strings)\<close>: the items in single quotes, separated by a comma and a
  space, in brackets (the identifiers hold no character that \<^verbatim>\<open>repr\<close> escapes).
\<close>

fun join :: "string \<Rightarrow> string list \<Rightarrow> string" where
  "join sep [] = []"
| "join sep [s] = s"
| "join sep (s # t # ss) = s @ sep @ join sep (t # ss)"

definition repr_str :: "string \<Rightarrow> string" where
  "repr_str s = [CHR 0x27] @ s @ [CHR 0x27]"

definition str_list :: "string list \<Rightarrow> string" where
  "str_list ss = ''['' @ join '', '' (map repr_str ss) @ '']''"

definition startswith :: "string \<Rightarrow> string \<Rightarrow> bool" where
  "startswith s p = (take (length p) s = p)"

section \<open>The engine\<close>

text \<open>
  The keyword arguments of the constructor, typed as its docstring gives them; a key
  that was not passed is \<open>None\<close>. The attribute \<^verbatim>\<open>self.method\<close> is the field
  \<open>method_id\<close>.
\<close>

record kwargs =
  kw_power :: "fl option"
  kw_smoothing :: "fl option"
  kw_variogram_model :: "string option"
  kw_rbf_smooth :: "fl option"

record engine =
  method_id :: string
  kwargs :: kwargs
  power :: fl
  smoothing :: fl
  variogram_model :: string
  rbf_smooth :: fl

text \<open>
  \<^verbatim>\<open>kwargs.get(key, default)\<close>, and the constructor \<^verbatim>\<open>__init__\<close>, which either
  raises or returns the engine.
\<close>

definition get_default :: "'a option \<Rightarrow> 'a \<Rightarrow> 'a" where
  "get_default v d = (case v of None \<Rightarrow> d | Some a \<Rightarrow> a)"

definition init :: "module_state \<Rightarrow> string \<Rightarrow> kwargs \<Rightarrow> error + engine" where
  "init md meth kw =
     (if meth \<notin> set (keys (METHODS md)) then
        Inl (ValueError (''Unknown method: '' @ meth @ ''. Available: ''
                         @ str_list (keys (METHODS md))))
      else if startswith meth ''kriging'' \<and> \<not> KRIGING_AVAILABLE md then
        Inl (ValueError ''Kriging methods require PyKrige. Please install it first.'')
      else
        Inr \<lparr> method_id = meth, kwargs = kw,
              power = get_default (kw_power kw) (Fin 2),
              smoothing = get_default (kw_smoothing kw) (Fin 0),
              variogram_model = get_default (kw_variogram_model kw) ''gaussian'',
              rbf_smooth = get_default (kw_rbf_smooth kw) (Fin 0) \<rparr>)"

section \<open>Cleaning, bounds and the grid\<close>

text \<open>
  \<^verbatim>\<open>valid_mask = ~(np.isnan(x) | np.isnan(y) | np.isnan(z))\<close> and the three
  selections \<^verbatim>\<open>x[valid_mask]\<close>. The module has checked \<open>3 \<le> len(x)\<close> before, so
  a \<open>y\<close> or \<open>z\<close> of another length is broadcast only if it has one entry, and then
  the boolean index does not fit it; any other length cannot be broadcast.
\<close>

definition valid_mask :: "fl list \<Rightarrow> fl list \<Rightarrow> fl list \<Rightarrow> bool list" where
  "valid_mask x y z =
     map (\<lambda>(a, b, c). \<not> (isnan a \<or> isnan b \<or> isnan c)) (zip x (zip y z))"

definition select :: "'a list \<Rightarrow> bool list \<Rightarrow> 'a list" where
  "select xs keep = map fst (filter snd (zip xs keep))"

definition clean :: "fl list \<Rightarrow> fl list \<Rightarrow> fl list \<Rightarrow> error + (fl list \<times> fl list \<times> fl list)" where
  "clean x y z =
     (if (length y \<noteq> length x \<and> length y \<noteq> 1) \<or> (length z \<noteq> length x \<and> length z \<noteq> 1)
        then Inl BroadcastError
      else if length y \<noteq> length x \<or> length z \<noteq> length x then Inl MaskIndexError
      else let m = valid_mask x y z in Inr (select x m, select y m, select z m))"

text \<open>
  The bounds: from the data, with the padding \<^verbatim>\<open>(max - min) * 0.05\<close> subtracted and
  added, or the caller's tuple \<open>(min_x, min_y, max_x, max_y)\<close> as it is.
\<close>

definition grid_bounds ::
  "fl list \<Rightarrow> fl list \<Rightarrow> (fl \<times> fl \<times> fl \<times> fl) option \<Rightarrow> error + (fl \<times> fl \<times> fl \<times> fl)" where
  "grid_bounds x y bounds =
     (case bounds of
        None \<Rightarrow>
          (case (np_min x, np_max x, np_min y, np_max y) of
             (Some min_x, Some max_x, Some min_y, Some max_y) \<Rightarrow>
               (let x_padding = fl_mul (fl_sub max_x min_x) (rnd 0.05);
                    y_padding = fl_mul (fl_sub max_y min_y) (rnd 0.05)
                in Inr (fl_sub min_x x_padding, fl_sub min_y y_padding,
                        fl_add max_x x_padding, fl_add max_y y_padding))
           | _ \<Rightarrow> Inl EmptyReductionError)
      | Some (min_x, min_y, max_x, max_y) \<Rightarrow> Inr (min_x, min_y, max_x, max_y))"

text \<open>
  \<^verbatim>\<open>np.linspace(start, stop, num)\<close> as numpy computes it: \<open>arange(num) * step + start\<close>
  with \<open>step = (stop - start) / (num - 1)\<close>, dividing first when the step is zero, and
  the last entry set to \<open>stop\<close>.
\<close>

definition linspace :: "fl \<Rightarrow> fl \<Rightarrow> int \<Rightarrow> error + fl list" where
  "linspace start stop num =
     (if num < 0 then Inl LinspaceError
      else
        let n = nat num;
            dv = num - 1;
            delta = fl_sub stop start;
            y0 = map (\<lambda>i. Fin (real i)) [0..<n];
            y1 = (if 0 < dv then
                    (let step = fl_div delta (Fin (of_int dv))
                     in if step = Fin 0
                        then map (\<lambda>v. fl_mul (fl_div v (Fin (of_int dv))) delta) y0
                        else map (\<lambda>v. fl_mul v step) y0)
                  else map (\<lambda>v. fl_mul v delta) y0);
            y2 = map (\<lambda>v. fl_add v start) y1
        in Inr (if 1 < num then y2[n - 1 := stop] else y2))"

definition meshgrid :: "fl list \<Rightarrow> fl list \<Rightarrow> grid \<times> grid" where
  "meshgrid xi yi = (replicate (length yi) xi, map (\<lambda>v. replicate (length xi) v) yi)"

text \<open>The two coordinate sequences of \<^verbatim>\<open>interpolate\<close>, from the cleaned samples.\<close>

definition grid_axes ::
  "fl list \<Rightarrow> fl list \<Rightarrow> int \<Rightarrow> (fl \<times> fl \<times> fl \<times> fl) option \<Rightarrow> error + (fl list \<times> fl list)" where
  "grid_axes x y grid_resolution bounds =
     (case grid_bounds x y bounds of
        Inl e \<Rightarrow> Inl e
      | Inr (min_x, min_y, max_x, max_y) \<Rightarrow>
          (case linspace min_x max_x grid_resolution of
             Inl e \<Rightarrow> Inl e
           | Inr xi \<Rightarrow>
               (case linspace min_y max_y grid_resolution of
                  Inl e \<Rightarrow> Inl e
                | Inr yi \<Rightarrow> Inr (xi, yi))))"

section \<open>Inverse distance weighting\<close>

text \<open>
  The body of the double loop of \<^verbatim>\<open>_idw\<close> for the grid point \<open>(gx, gy)\<close>: the
  distances to all samples with the smoothing added, then either the value of the sample
  that \<^verbatim>\<open>np.argmin\<close> picks, when a distance is below \<^verbatim>\<open>1e-10\<close>, or the quotient of
  the two sums. The samples \<open>x\<close>, \<open>y\<close>, \<open>z\<close> have one length (they come from one boolean
  selection).
\<close>

definition idw_distances :: "fl \<Rightarrow> fl list \<Rightarrow> fl list \<Rightarrow> fl \<Rightarrow> fl \<Rightarrow> fl list" where
  "idw_distances smoothing_v x y gx gy =
     map (\<lambda>d. fl_add d smoothing_v)
       (map (\<lambda>(xk, yk). fl_sqrt (fl_add (fl_sq (fl_sub xk gx)) (fl_sq (fl_sub yk gy)))) (zip x y))"

definition idw_weights :: "externals \<Rightarrow> fl \<Rightarrow> fl list \<Rightarrow> fl list" where
  "idw_weights ext power_v distances =
     map (\<lambda>d. fl_div (Fin 1) (fl_pow (float_power ext) d power_v)) distances"

definition idw_cell ::
  "externals \<Rightarrow> fl \<Rightarrow> fl \<Rightarrow> fl list \<Rightarrow> fl list \<Rightarrow> fl list \<Rightarrow> fl \<Rightarrow> fl \<Rightarrow> fl" where
  "idw_cell ext power_v smoothing_v x y z gx gy =
     (let distances = idw_distances smoothing_v x y gx gy
      in if list_ex (\<lambda>d. fl_lt d (rnd (1 / 10 ^ 10))) distances then
           z ! np_argmin distances
         else
           (let weights = idw_weights ext power_v distances
            in fl_div (np_sum ext (map (\<lambda>(w, v). fl_mul w v) (zip weights z)))
                      (np_sum ext weights)))"

text \<open>
  \<^verbatim>\<open>_idw\<close>: every cell \<open>(i, j)\<close> of the mesh, with the power and the smoothing of the
  engine. \<open>XI\<close> and \<open>YI\<close> have one shape (they come from one \<^verbatim>\<open>meshgrid\<close>).
\<close>

definition idw ::
  "externals \<Rightarrow> engine \<Rightarrow> fl list \<Rightarrow> fl list \<Rightarrow> fl list \<Rightarrow> grid \<Rightarrow> grid \<Rightarrow> grid" where
  "idw ext self x y z XI YI =
     map (\<lambda>(xrow, yrow).
            map (\<lambda>(gx, gy). idw_cell ext (power self) (smoothing self) x y z gx gy)
                (zip xrow yrow))
         (zip XI YI)"

section \<open>The methods of the external libraries\<close>

text \<open>
  \<^verbatim>\<open>_rbf\<close> and \<^verbatim>\<open>_kriging\<close> return the grid and the warnings they emitted with
  \<^verbatim>\<open>warnings.warn\<close>.
\<close>

definition function_map :: "(string \<times> string) list" where
  "function_map =
     [(''rbf_multiquadric'', ''multiquadric''),
      (''rbf_gaussian'', ''gaussian''),
      (''rbf_thin_plate'', ''thin_plate''),
      (''rbf_linear'', ''linear'')]"

definition rbf ::
  "externals \<Rightarrow> engine \<Rightarrow> fl list \<Rightarrow> fl list \<Rightarrow> fl list \<Rightarrow> grid \<Rightarrow> grid \<Rightarrow> grid \<times> string list" where
  "rbf ext self x y z XI YI =
     (let function = get_default (map_of function_map (method_id self)) ''multiquadric''
      in case Rbf ext x y z function (rbf_smooth self) XI YI of
           Inr ZI \<Rightarrow> (ZI, [])
         | Inl e \<Rightarrow>
             (idw ext self x y z XI YI,
              [''RBF interpolation failed: '' @ e @ ''. Falling back to IDW.'']))"

definition kriging ::
  "externals \<Rightarrow> module_state \<Rightarrow> engine \<Rightarrow> fl list \<Rightarrow> fl list \<Rightarrow> fl list \<Rightarrow> fl list \<Rightarrow> fl list
     \<Rightarrow> error + grid \<times> string list" where
  "kriging ext md self x y z xi yi =
     (if \<not> KRIGING_AVAILABLE md then Inl (RuntimeError ''PyKrige is not available'')
      else
        case (if method_id self = ''kriging_ordinary''
              then OrdinaryKriging ext x y z (variogram_model self) xi yi
              else UniversalKriging ext x y z (variogram_model self) xi yi) of
          Inr ZI \<Rightarrow> Inr (ZI, [])
        | Inl e \<Rightarrow>
            (let (XI, YI) = meshgrid xi yi
             in Inr (idw ext self x y z XI YI,
                     [''Kriging failed: '' @ e @ ''. Falling back to IDW.''])))"

section \<open>The public operation\<close>

record result =
  res_XI :: grid
  res_YI :: grid
  res_ZI :: grid
  res_warnings :: "string list"

text \<open>The dispatch on the method, on the cleaned samples and the grid.\<close>

definition dispatch ::
  "externals \<Rightarrow> module_state \<Rightarrow> engine \<Rightarrow> fl list \<Rightarrow> fl list \<Rightarrow> fl list \<Rightarrow> fl list \<Rightarrow> fl list
     \<Rightarrow> error + result" where
  "dispatch ext md self x y z xi yi =
     (let (XI, YI) = meshgrid xi yi
      in if method_id self = ''idw'' then
           Inr \<lparr> res_XI = XI, res_YI = YI, res_ZI = idw ext self x y z XI YI, res_warnings = [] \<rparr>
         else if startswith (method_id self) ''kriging'' then
           (case kriging ext md self x y z xi yi of
              Inl e \<Rightarrow> Inl e
            | Inr (ZI, ws) \<Rightarrow> Inr \<lparr> res_XI = XI, res_YI = YI, res_ZI = ZI, res_warnings = ws \<rparr>)
         else if startswith (method_id self) ''rbf'' then
           (case rbf ext self x y z XI YI of
              (ZI, ws) \<Rightarrow> Inr \<lparr> res_XI = XI, res_YI = YI, res_ZI = ZI, res_warnings = ws \<rparr>)
         else if method_id self \<in> set [''linear'', ''cubic'', ''nearest''] then
           (case griddata ext x y z XI YI (method_id self) of
              Inl e \<Rightarrow> Inl (ExternalError e)
            | Inr ZI \<Rightarrow> Inr \<lparr> res_XI = XI, res_YI = YI, res_ZI = ZI, res_warnings = [] \<rparr>)
         else Inl (ValueError (''Unknown interpolation method: '' @ method_id self)))"

text \<open>
  \<^verbatim>\<open>interpolate\<close>: the length check on the arrays as they come, the removal of NaN,
  the grid, the method.
\<close>

definition interpolate ::
  "externals \<Rightarrow> module_state \<Rightarrow> engine \<Rightarrow> fl list \<Rightarrow> fl list \<Rightarrow> fl list \<Rightarrow> int
     \<Rightarrow> (fl \<times> fl \<times> fl \<times> fl) option \<Rightarrow> error + result" where
  "interpolate ext md self x y z grid_resolution bounds =
     (if length x < 3 then Inl (ValueError ''Need at least 3 points for interpolation'')
      else
        case clean x y z of
          Inl e \<Rightarrow> Inl e
        | Inr (cx, cy, cz) \<Rightarrow>
            (case grid_axes cx cy grid_resolution bounds of
               Inl e \<Rightarrow> Inl e
             | Inr (xi, yi) \<Rightarrow> dispatch ext md self cx cy cz xi yi))"

section \<open>The extrapolation mask\<close>

text \<open>
  \<^verbatim>\<open>mask_extrapolation_regions\<close>: \<^verbatim>\<open>cdist\<close> gives the Euclidean distance of every
  grid point to every sample, \<^verbatim>\<open>min(axis=1)\<close> the smallest per grid point, which
  raises when there is no sample, and \<^verbatim>\<open>np.where(min_distances < max_distance, ZI, nan)\<close>
  the new grid. The three grids have one shape.
\<close>

definition euclidean :: "fl \<times> fl \<Rightarrow> fl \<times> fl \<Rightarrow> fl" where
  "euclidean a b =
     fl_sqrt (fl_add (fl_sq (fl_sub (fst a) (fst b))) (fl_sq (fl_sub (snd a) (snd b))))"

definition min_distance :: "(fl \<times> fl) list \<Rightarrow> fl \<times> fl \<Rightarrow> fl option" where
  "min_distance sample_points g = np_min (map (euclidean g) sample_points)"

definition mask_extrapolation_regions ::
  "grid \<Rightarrow> grid \<Rightarrow> grid \<Rightarrow> (fl \<times> fl) list \<Rightarrow> fl \<Rightarrow> error + grid" where
  "mask_extrapolation_regions XI YI ZI sample_points max_distance =
     (if sample_points = [] then Inl EmptyReductionError
      else
        Inr (map (\<lambda>(xrow, yrow, zrow).
                    map (\<lambda>(gx, gy, v).
                           case min_distance sample_points (gx, gy) of
                             Some d \<Rightarrow> if fl_lt d max_distance then v else NaN
                           | None \<Rightarrow> NaN)
                        (zip xrow (zip yrow zrow)))
                 (zip XI (zip YI ZI))))"

section \<open>Calls of the module\<close>

text \<open>
  The public operations, each with the state of the module before and after the call:
  the constructor, \<^verbatim>\<open>interpolate\<close> and \<^verbatim>\<open>mask_extrapolation_regions\<close>. None of them
  assigns to \<^verbatim>\<open>KRIGING_AVAILABLE\<close> or to \<^verbatim>\<open>METHODS\<close>, nor calls a method of the dict
  that changes it.
\<close>

datatype call =
    Construct string kwargs
  | Interpolate engine "fl list" "fl list" "fl list" int "(fl \<times> fl \<times> fl \<times> fl) option"
  | MaskExtrapolation grid grid grid "(fl \<times> fl) list" fl

datatype outcome =
    Constructed "error + engine"
  | Interpolated "error + result"
  | Masked "error + grid"

fun exec :: "externals \<Rightarrow> module_state \<Rightarrow> call \<Rightarrow> module_state \<times> outcome" where
  "exec ext md (Construct meth kw) = (md, Constructed (init md meth kw))"
| "exec ext md (Interpolate self x y z grid_resolution bounds) =
     (md, Interpolated (interpolate ext md self x y z grid_resolution bounds))"
| "exec ext md (MaskExtrapolation XI YI ZI sample_points max_distance) =
     (md, Masked (mask_extrapolation_regions XI YI ZI sample_points max_distance))"

fun run :: "externals \<Rightarrow> module_state \<Rightarrow> call list \<Rightarrow> module_state \<times> outcome list" where
  "run ext md [] = (md, [])"
| "run ext md (c # cs) =
     (case exec ext md c of
        (md', out) \<Rightarrow> (case run ext md' cs of (md'', outs) \<Rightarrow> (md'', out # outs)))"

section \<open>Fixtures for concrete runs\<close>

text \<open>
  External libraries that raise on every call, with a power that is the rounded exact
  power and a long sum from left to right; the empty keyword arguments; the engine
  that the constructor builds from an identifier and keyword arguments.
\<close>

definition raising_externals :: externals where
  "raising_externals =
     \<lparr> Rbf = (\<lambda>x y z f s XI YI. Inl ''Matrix is singular.''),
       griddata = (\<lambda>x y z XI YI m. Inl ''QhullError''),
       OrdinaryKriging = (\<lambda>x y z v xi yi. Inl ''LinAlgError''),
       UniversalKriging = (\<lambda>x y z v xi yi. Inl ''LinAlgError''),
       float_power = (\<lambda>a b. rnd ((if a < 0 \<and> is_odd_integral b then - 1 else 1) * (\<bar>a\<bar> powr b))),
       long_sum = foldl fl_add (Fin 0) \<rparr>"

definition no_kwargs :: kwargs where
  "no_kwargs =
     \<lparr> kw_power = None, kw_smoothing = None, kw_variogram_model = None, kw_rbf_smooth = None \<rparr>"

definition engine_of :: "string \<Rightarrow> kwargs \<Rightarrow> engine" where
  "engine_of meth kw =
     \<lparr> method_id = meth, kwargs = kw,
       power = get_default (kw_power kw) (Fin 2),
       smoothing = get_default (kw_smoothing kw) (Fin 0),
       variogram_model = get_default (kw_variogram_model kw) ''gaussian'',
       rbf_smooth = get_default (kw_rbf_smooth kw) (Fin 0) \<rparr>"

text \<open>The indices at which none of the three arrays holds NaN, in increasing order.\<close>

definition valid_indices :: "fl list \<Rightarrow> fl list \<Rightarrow> fl list \<Rightarrow> nat list" where
  "valid_indices x y z =
     filter (\<lambda>i. \<not> (isnan (x ! i) \<or> isnan (y ! i) \<or> isnan (z ! i))) [0..<length x]"




section \<open>Evaluating the rounding\<close>

lemma bitlen_numeral_step: "bitlen (numeral n) = bitlen (numeral n div 2) + 1"
  by (subst compute_bitlen) simp

lemma bitlen_one: "bitlen 1 = 1"
  by (subst compute_bitlen) simp

lemmas rnd_eval = rnd_def exponent_def round_even_def pow2_def inf_of_sign_def
  bitlen_numeral_step bitlen_one

lemma sqrt_25: "sqrt 25 = 5"
  by (rule real_sqrt_unique) simp_all



section \<open>The rounding is to nearest\<close>

text \<open>
  \<open>exponent a\<close> is the binary exponent of \<open>a\<close>, and a finite result of \<open>rnd\<close> is within
  half a unit in the last place of the real it rounds.
\<close>

lemma exponent_bounds:
  assumes "0 < a"
  shows "pow2 (exponent a) \<le> a \<and> a < pow2 (exponent a + 1)"
proof (cases "1 \<le> a")
  case True
  define N where "N = \<lfloor>a\<rfloor>"
  have N: "1 \<le> N" "of_int N \<le> a" "a < of_int N + 1" using True by (simp_all add: N_def le_floor_iff)
  then have Npos: "0 < N" by simp
  have b: "2 ^ nat (bitlen N - 1) \<le> N" "N < 2 ^ nat (bitlen N)"
    using bitlen_bounds[OF Npos] by simp_all
  have bl: "1 \<le> bitlen N" using Npos by (simp add: bitlen_alt_def)
  have e: "exponent a = bitlen N - 1" using True by (simp add: exponent_def N_def)
  have lo: "pow2 (exponent a) \<le> a"
  proof -
    have "pow2 (exponent a) = 2 ^ nat (bitlen N - 1)" using bl by (simp add: e pow2_def)
    also have "\<dots> = of_int (2 ^ nat (bitlen N - 1))" by simp
    also have "\<dots> \<le> of_int N" using b(1) by (simp only: of_int_le_iff)
    finally show ?thesis using N(2) by linarith
  qed
  have hi: "a < pow2 (exponent a + 1)"
  proof -
    have "N + 1 \<le> 2 ^ nat (bitlen N)" using b(2) by simp
    then have "(of_int (N + 1) :: real) \<le> of_int (2 ^ nat (bitlen N))"
      by (simp only: of_int_le_iff)
    then have "of_int N + 1 \<le> (2::real) ^ nat (bitlen N)" by simp
    moreover have "pow2 (exponent a + 1) = 2 ^ nat (bitlen N)" using bl by (simp add: e pow2_def)
    ultimately show ?thesis using N(3) by linarith
  qed
  from lo hi show ?thesis ..
next
  case False
  then have a1: "a < 1" by simp
  define M where "M = \<lceil>1 / a\<rceil>"
  have y1: "1 < 1 / a" using assms a1 by simp
  have M: "1 / a \<le> of_int M" "of_int M - 1 < 1 / a" by (simp_all add: M_def) linarith
  have M2: "2 \<le> M" using y1 M(1) by linarith
  then have Mpos: "0 < M - 1" by simp
  define k where "k = bitlen (M - 1)"
  have b: "2 ^ nat (k - 1) \<le> M - 1" "M - 1 < 2 ^ nat k"
    using bitlen_bounds[OF Mpos] by (simp_all add: k_def)
  have k1: "1 \<le> k" using Mpos by (simp add: k_def bitlen_alt_def)
  have e: "exponent a = - k" using False by (simp add: exponent_def M_def k_def)
  have lo: "pow2 (exponent a) \<le> a"
  proof -
    have "M \<le> 2 ^ nat k" using b(2) by simp
    then have "(of_int M :: real) \<le> of_int (2 ^ nat k)"
      by (simp only: of_int_le_iff)
    then have "of_int M \<le> (2::real) ^ nat k" by simp
    then have "1 / a \<le> 2 ^ nat k" using M(1) by linarith
    then have "1 / 2 ^ nat k \<le> a" using assms by (simp add: field_simps)
    moreover have "pow2 (exponent a) = 1 / 2 ^ nat k" using k1 by (simp add: e pow2_def)
    ultimately show ?thesis by simp
  qed
  have hi: "a < pow2 (exponent a + 1)"
  proof (cases "k = 1")
    case True
    then show ?thesis using a1 by (simp add: e pow2_def)
  next
    case False
    then have k2: "2 \<le> k" using k1 by simp
    have "(of_int (2 ^ nat (k - 1)) :: real) \<le> of_int (M - 1)" using b(1)
      by (simp only: of_int_le_iff)
    then have "(2::real) ^ nat (k - 1) \<le> of_int (M - 1)" by simp
    then have "2 ^ nat (k - 1) < 1 / a" using M(2) by simp
    then have "a < 1 / 2 ^ nat (k - 1)" using assms by (simp add: field_simps)
    moreover have "pow2 (exponent a + 1) = 1 / 2 ^ nat (k - 1)"
      using k2 by (simp add: e pow2_def)
    ultimately show ?thesis by simp
  qed
  from lo hi show ?thesis ..
qed

lemma round_even_nearest: "\<bar>of_int (round_even y) - y\<bar> \<le> 1 / 2"
proof -
  have "of_int \<lfloor>y\<rfloor> \<le> y" "y < of_int \<lfloor>y\<rfloor> + 1" by linarith+
  then show ?thesis unfolding round_even_def by (auto simp: abs_le_iff)
qed

lemma rnd_nearest:
  assumes "rnd x = Fin r"
  shows "\<bar>r - x\<bar> \<le> pow2 (max (exponent \<bar>x\<bar>) (- 1022) - 52) / 2"
proof (cases "x = 0")
  case True
  then have "r = 0" using assms by (simp add: rnd_def)
  then show ?thesis using True by (simp add: pow2_def)
next
  case False
  let ?q = "pow2 (max (exponent \<bar>x\<bar>) (- 1022) - 52)"
  let ?m = "round_even (\<bar>x\<bar> / ?q)"
  have q: "0 < ?q" by (simp add: pow2_def)
  have small: "\<not> 2 ^ 1024 - 2 ^ 970 \<le> \<bar>x\<bar>"
    using assms False by (auto simp: rnd_def inf_of_sign_def split: if_splits)
  have r: "r = sgn x * of_int ?m * ?q" using assms False small by (simp add: rnd_def)
  have "r - x = sgn x * (of_int ?m * ?q - \<bar>x\<bar>)"
    unfolding r using sgn_mult_abs[of x] by (simp add: algebra_simps)
  then have "\<bar>r - x\<bar> = \<bar>of_int ?m * ?q - \<bar>x\<bar>\<bar>"
    using False by (simp add: abs_mult abs_sgn_eq)
  also have "\<dots> = \<bar>of_int ?m - \<bar>x\<bar> / ?q\<bar> * ?q"
  proof -
    have "of_int ?m * ?q - \<bar>x\<bar> = (of_int ?m - \<bar>x\<bar> / ?q) * ?q"
      using q by (simp add: field_simps)
    then show ?thesis using q by (simp add: abs_mult)
  qed
  also have "\<dots> \<le> (1 / 2) * ?q"
    using round_even_nearest[of "\<bar>x\<bar> / ?q"] q by (intro mult_right_mono) simp_all
  finally show ?thesis by simp
qed

section \<open>The registry and the constructor\<close>

lemma keys_base:
  "keys (METHODS (import_module False)) =
     [''idw'', ''linear'', ''cubic'', ''nearest'',
      ''rbf_multiquadric'', ''rbf_gaussian'', ''rbf_thin_plate'', ''rbf_linear'']"
  by (simp add: keys_def import_module_def BASE_METHODS_def)

lemma keys_kriging:
  "keys (METHODS (import_module True)) =
     keys (METHODS (import_module False)) @ [''kriging_ordinary'', ''kriging_universal'']"
  by (simp add: keys_def import_module_def BASE_METHODS_def KRIGING_METHODS_def dict_update_def)

lemma flag_import: "KRIGING_AVAILABLE (import_module b) = b"
  by (simp add: import_module_def Let_def)

lemma exec_keeps_module: "fst (exec ext md c) = md"
  by (cases c) simp_all

lemma run_keeps_module: "fst (run ext md cs) = md"
proof (induction cs arbitrary: md)
  case Nil
  show ?case by simp
next
  case (Cons c cs)
  obtain md' out where e: "exec ext md c = (md', out)" by (cases "exec ext md c")
  then have "md' = md" using exec_keeps_module[of ext md c] by simp
  moreover obtain md'' outs where r: "run ext md' cs = (md'', outs)" by (cases "run ext md' cs")
  moreover have "md'' = md'" using Cons.IH[of md'] r by simp
  ultimately show ?case using e by simp
qed

text \<open>
  Claim C9. After an import without the geostatistics provider the registry holds exactly
  the eight base identifiers (IDW, linear, cubic, nearest and the four RBF kernels);
  after an import with it, the same eight followed by exactly the two kriging
  identifiers, all ten distinct. The registry is not mutated afterwards: whatever calls
  of the constructor, of \<^verbatim>\<open>interpolate\<close> and of the mask follow the import, with
  whatever arguments and results, the registry and the flag are the ones the import
  left.
\<close>

theorem registry_contents:
  "keys (METHODS (import_module False)) =
     [''idw'', ''linear'', ''cubic'', ''nearest'',
      ''rbf_multiquadric'', ''rbf_gaussian'', ''rbf_thin_plate'', ''rbf_linear'']
   \<and> keys (METHODS (import_module True)) =
       keys (METHODS (import_module False)) @ [''kriging_ordinary'', ''kriging_universal'']
   \<and> distinct (keys (METHODS (import_module True)))
   \<and> METHODS (fst (run ext (import_module pykrige_importable) calls))
       = METHODS (import_module pykrige_importable)
   \<and> KRIGING_AVAILABLE (fst (run ext (import_module pykrige_importable) calls))
       = pykrige_importable"
  using keys_base keys_kriging by (simp add: run_keeps_module flag_import)

text \<open>
  Claim C8, as amended. An identifier that is not in the registry is refused with a
  \<open>ValueError\<close> whose message names it and lists the valid identifiers. An identifier of
  the registry is accepted with whatever parameters come with it: the constructor
  stores them, or their defaults, and checks no domain.
\<close>

theorem init_checks_method_only:
  "(meth \<notin> set (keys (METHODS (import_module ka))) \<longrightarrow>
      init (import_module ka) meth kw =
        Inl (ValueError (''Unknown method: '' @ meth @ ''. Available: ''
                         @ str_list (keys (METHODS (import_module ka))))))
   \<and> (meth \<in> set (keys (METHODS (import_module ka))) \<longrightarrow>
        init (import_module ka) meth kw = Inr (engine_of meth kw))"
proof (cases ka)
  case True
  then show ?thesis by (simp add: init_def engine_of_def flag_import)
next
  case False
  then have "\<not> startswith meth ''kriging''" if "meth \<in> set (keys (METHODS (import_module ka)))"
    using that by (auto simp: keys_base startswith_def)
  then show ?thesis by (simp add: init_def engine_of_def)
qed

theorem init_checks_method_only_witness:
  "''spline'' \<notin> set (keys (METHODS (import_module False)))
   \<and> init (import_module False) ''spline'' no_kwargs =
       Inl (ValueError (''Unknown method: spline. Available: ''
              @ str_list [''idw'', ''linear'', ''cubic'', ''nearest'',
                          ''rbf_multiquadric'', ''rbf_gaussian'', ''rbf_thin_plate'',
                          ''rbf_linear'']))
   \<and> ''rbf_linear'' \<in> set (keys (METHODS (import_module False)))
   \<and> init (import_module False) ''rbf_linear'' no_kwargs = Inr (engine_of ''rbf_linear'' no_kwargs)"
  using init_checks_method_only [of "''spline''" False no_kwargs]
        init_checks_method_only [of "''rbf_linear''" False no_kwargs]
  by (simp add: keys_base)

text \<open>
  The claim as stated fails: the constructor accepts the power \<open>-1\<close>, and
  \<^verbatim>\<open>interpolate\<close> then returns a grid.
\<close>

theorem init_accepts_negative_power:
  "init (import_module False) ''idw'' (no_kwargs \<lparr> kw_power := Some (Fin (- 1)) \<rparr>)
     = Inr (engine_of ''idw'' (no_kwargs \<lparr> kw_power := Some (Fin (- 1)) \<rparr>))
   \<and> power (engine_of ''idw'' (no_kwargs \<lparr> kw_power := Some (Fin (- 1)) \<rparr>)) = Fin (- 1)
   \<and> \<not> isl (interpolate raising_externals (import_module False)
               (engine_of ''idw'' (no_kwargs \<lparr> kw_power := Some (Fin (- 1)) \<rparr>))
               [Fin 0, Fin 1, Fin 0] [Fin 0, Fin 0, Fin 1] [Fin 1, Fin 2, Fin 3] 2 None)"
  by (simp add: init_def keys_base engine_of_def no_kwargs_def get_default_def startswith_def
        interpolate_def clean_def valid_mask_def select_def grid_axes_def grid_bounds_def
        linspace_def dispatch_def meshgrid_def Let_def split: sum.splits prod.splits)

section \<open>Cleaning\<close>

lemma select_nth:
  assumes "length m = length xs"
  shows "select xs m = map ((!) xs) (filter ((!) m) [0..<length xs])"
proof -
  have "zip xs m = map (\<lambda>i. (xs ! i, m ! i)) [0..<length xs]"
    using assms by (intro nth_equalityI) simp_all
  then show ?thesis
    by (simp add: select_def filter_map comp_def)
qed

lemma valid_mask_length:
  "length y = length x \<Longrightarrow> length z = length x \<Longrightarrow> length (valid_mask x y z) = length x"
  by (simp add: valid_mask_def)

lemma valid_mask_nth:
  "length y = length x \<Longrightarrow> length z = length x \<Longrightarrow> i < length x \<Longrightarrow>
   valid_mask x y z ! i = (\<not> (isnan (x ! i) \<or> isnan (y ! i) \<or> isnan (z ! i)))"
  by (simp add: valid_mask_def)

lemma filter_valid_mask:
  assumes "length y = length x" "length z = length x"
  shows "filter ((!) (valid_mask x y z)) [0..<length x] = valid_indices x y z"
  unfolding valid_indices_def
  by (rule filter_cong) (simp_all add: valid_mask_nth assms)

lemma clean_eq:
  assumes "length y = length x" "length z = length x"
  shows "clean x y z =
         Inr (map ((!) x) (valid_indices x y z), map ((!) y) (valid_indices x y z),
              map ((!) z) (valid_indices x y z))"
proof -
  have l: "length (valid_mask x y z) = length x" by (rule valid_mask_length[OF assms])
  have "select x (valid_mask x y z) = map ((!) x) (valid_indices x y z)"
    using select_nth[of "valid_mask x y z" x] l filter_valid_mask[OF assms] by simp
  moreover have "select y (valid_mask x y z) = map ((!) y) (valid_indices x y z)"
    using select_nth[of "valid_mask x y z" y] l filter_valid_mask[OF assms] assms by simp
  moreover have "select z (valid_mask x y z) = map ((!) z) (valid_indices x y z)"
    using select_nth[of "valid_mask x y z" z] l filter_valid_mask[OF assms] assms by simp
  ultimately show ?thesis using assms by (simp add: clean_def)
qed

lemma valid_indices_all:
  assumes "\<forall>v \<in> set x \<union> set y \<union> set z. \<not> isnan v" "length y = length x" "length z = length x"
  shows "valid_indices x y z = [0..<length x]"
proof -
  have "\<not> isnan (x ! i) \<and> \<not> isnan (y ! i) \<and> \<not> isnan (z ! i)" if "i < length x" for i
  proof -
    have "x ! i \<in> set x" "y ! i \<in> set y" "z ! i \<in> set z"
      using that assms(2,3) by simp_all
    then show ?thesis using assms(1) by blast
  qed
  then show ?thesis
    unfolding valid_indices_def by (intro filter_True) simp
qed

lemma clean_no_nan_id:
  assumes "\<forall>v \<in> set x \<union> set y \<union> set z. \<not> isnan v" "length y = length x" "length z = length x"
  shows "clean x y z = Inr (x, y, z)"
proof -
  have "map ((!) x) [0..<length x] = x" "map ((!) y) [0..<length x] = y" "map ((!) z) [0..<length x] = z"
    using assms(2,3) by (metis map_nth)+
  then show ?thesis
    using clean_eq[OF assms(2,3)] valid_indices_all[OF assms] by simp
qed

lemma valid_indices_props:
  "i \<in> set (valid_indices x y z) \<longleftrightarrow> i < length x \<and> \<not> isnan (x ! i) \<and> \<not> isnan (y ! i) \<and> \<not> isnan (z ! i)"
  by (auto simp: valid_indices_def)

text \<open>
  Claim C6, as amended. For three arrays of one length, cleaning keeps exactly the
  indices at which none of the three holds NaN, in their order, in all three arrays:
  index \<open>i\<close> is removed exactly when an entry at \<open>i\<close> is NaN. After cleaning no entry is
  NaN. An infinite entry is not removed. The interpolation reads the cleaned arrays
  only: when three points or more remain, the result is the one for the cleaned arrays.
\<close>

theorem clean_removes_nan_only:
  assumes "length y = length x" and "length z = length x"
  shows "clean x y z =
           Inr (map ((!) x) (valid_indices x y z), map ((!) y) (valid_indices x y z),
                map ((!) z) (valid_indices x y z))
         \<and> (\<forall>i. i \<in> set (valid_indices x y z) \<longleftrightarrow>
                  i < length x \<and> \<not> isnan (x ! i) \<and> \<not> isnan (y ! i) \<and> \<not> isnan (z ! i))
         \<and> (\<forall>v \<in> set (map ((!) x) (valid_indices x y z))
                    \<union> set (map ((!) y) (valid_indices x y z))
                    \<union> set (map ((!) z) (valid_indices x y z)). \<not> isnan v)
         \<and> (3 \<le> length (valid_indices x y z) \<longrightarrow>
              interpolate ext md self x y z res bounds =
              interpolate ext md self (map ((!) x) (valid_indices x y z))
                (map ((!) y) (valid_indices x y z)) (map ((!) z) (valid_indices x y z)) res bounds)"
proof -
  let ?ks = "valid_indices x y z"
  let ?cx = "map ((!) x) ?ks" and ?cy = "map ((!) y) ?ks" and ?cz = "map ((!) z) ?ks"
  have c: "clean x y z = Inr (?cx, ?cy, ?cz)" by (rule clean_eq[OF assms])
  have nn: "\<forall>v \<in> set ?cx \<union> set ?cy \<union> set ?cz. \<not> isnan v"
    by (auto simp: valid_indices_props)
  have idem: "clean ?cx ?cy ?cz = Inr (?cx, ?cy, ?cz)"
    by (rule clean_no_nan_id[OF nn]) simp_all
  have len: "length ?ks \<le> length x"
    using length_filter_le[of _ "[0..<length x]"] by (simp add: valid_indices_def)
  have "interpolate ext md self x y z res bounds = interpolate ext md self ?cx ?cy ?cz res bounds"
    if "3 \<le> length ?ks"
  proof -
    have "\<not> length x < 3" "\<not> length ?cx < 3" using that len by simp_all
    then show ?thesis unfolding interpolate_def using c idem by (simp del: length_map)
  qed
  with c nn valid_indices_props show ?thesis by blast
qed

theorem clean_removes_nan_only_witness:
  "clean [Fin 0, NaN, Fin 1, PInf, Fin 2] [Fin 0, Fin 1, Fin 2, Fin 3, NaN]
         [Fin 5, Fin 6, Fin 7, Fin 8, Fin 9]
     = Inr ([Fin 0, Fin 1, PInf], [Fin 0, Fin 2, Fin 3], [Fin 5, Fin 7, Fin 8])"
  using clean_removes_nan_only
          [of "[Fin 0, Fin 1, Fin 2, Fin 3, NaN]" "[Fin 0, NaN, Fin 1, PInf, Fin 2]"
              "[Fin 5, Fin 6, Fin 7, Fin 8, Fin 9]"]
  by (auto simp: valid_indices_def)

text \<open>
  The claim as stated fails: index 0 holds an infinite \<open>x\<close>, index 2 an infinite \<open>z\<close>,
  and cleaning removes neither.
\<close>

theorem clean_keeps_infinite:
  "isinf ([PInf, Fin 0, Fin 1] ! 0) \<and> isinf ([Fin 1, Fin 2, NInf] ! 2)
   \<and> clean [PInf, Fin 0, Fin 1] [Fin 0, Fin 1, Fin 2] [Fin 1, Fin 2, NInf]
     = Inr ([PInf, Fin 0, Fin 1], [Fin 0, Fin 1, Fin 2], [Fin 1, Fin 2, NInf])"
  by (simp add: clean_def valid_mask_def select_def)

section \<open>The length check\<close>

text \<open>
  Claim C3, as amended. Whenever the arrays passed in hold fewer than 3 points,
  \<^verbatim>\<open>interpolate\<close> fails with the insufficient-data error, a \<open>ValueError\<close> with the
  message of the module, before any cleaning, grid or method: whatever the other
  arguments, the external libraries and the engine are. A sample set of 2 points fails
  with this error.
\<close>

theorem interpolate_needs_three_points:
  "length x < 3 \<Longrightarrow>
   interpolate ext md self x y z res bounds =
     Inl (ValueError ''Need at least 3 points for interpolation'')"
  by (simp add: interpolate_def)

theorem interpolate_needs_three_points_witness:
  "length [Fin 0, Fin 1] < 3
   \<and> interpolate raising_externals (import_module False) (engine_of ''rbf_linear'' no_kwargs)
        [Fin 0, Fin 1] [Fin 0, Fin 1] [Fin 1, Fin 2] 100 None
      = Inl (ValueError ''Need at least 3 points for interpolation'')"
  using interpolate_needs_three_points
          [of "[Fin 0, Fin 1]" raising_externals "import_module False"
              "engine_of ''rbf_linear'' no_kwargs" "[Fin 0, Fin 1]" "[Fin 1, Fin 2]" 100 None]
  by simp

text \<open>
  The claim as stated fails: of three points, one with an infinite coordinate, two are
  usable, and of three points, one with a NaN coordinate, two remain after cleaning;
  \<^verbatim>\<open>interpolate\<close> returns a result for both.
\<close>

theorem interpolate_counts_raw_points:
  "\<not> isl (interpolate raising_externals (import_module False) (engine_of ''idw'' no_kwargs)
            [Fin 0, Fin 1, PInf] [Fin 0, Fin 1, Fin 0] [Fin 1, Fin 2, Fin 3] 2 None)
   \<and> \<not> isl (interpolate raising_externals (import_module False) (engine_of ''idw'' no_kwargs)
            [Fin 0, Fin 1, NaN] [Fin 0, Fin 1, Fin 0] [Fin 1, Fin 2, Fin 3] 2 None)"
  by (simp add: interpolate_def clean_def valid_mask_def select_def grid_axes_def grid_bounds_def
        linspace_def dispatch_def meshgrid_def engine_of_def Let_def
        split: sum.splits prod.splits)

section \<open>The fallback of the RBF method\<close>

lemma idw_params_only:
  "power a = power b \<Longrightarrow> smoothing a = smoothing b \<Longrightarrow>
   idw ext a x y z XI YI = idw ext b x y z XI YI"
  by (simp add: idw_def)

text \<open>
  Claim C2, as amended. When the RBF fit or its evaluation raises, \<^verbatim>\<open>_rbf\<close> raises
  nothing: it emits one warning, which carries the message of the exception, and
  returns exactly the grid of \<^verbatim>\<open>_idw\<close> on the same samples and the same mesh with the
  power and the smoothing of the engine. These are the defaults 2.0 and 0.0 when the
  caller passed none, and then the grid is the one of an IDW engine with default
  parameters.
\<close>

theorem rbf_falls_back_to_engine_idw:
  assumes "Rbf ext x y z (get_default (map_of function_map (method_id self)) ''multiquadric'')
             (rbf_smooth self) XI YI = Inl e"
  shows "rbf ext self x y z XI YI =
           (idw ext self x y z XI YI,
            [''RBF interpolation failed: '' @ e @ ''. Falling back to IDW.''])
         \<and> idw ext self x y z XI YI
             = idw ext (engine_of ''idw'' (no_kwargs \<lparr> kw_power := Some (power self),
                                                      kw_smoothing := Some (smoothing self) \<rparr>))
                   x y z XI YI
         \<and> (power self = Fin 2 \<and> smoothing self = Fin 0 \<longrightarrow>
              idw ext self x y z XI YI = idw ext (engine_of ''idw'' no_kwargs) x y z XI YI)"
proof -
  have "rbf ext self x y z XI YI =
          (idw ext self x y z XI YI,
           [''RBF interpolation failed: '' @ e @ ''. Falling back to IDW.''])"
    using assms by (simp add: rbf_def)
  moreover have "idw ext self x y z XI YI
             = idw ext (engine_of ''idw'' (no_kwargs \<lparr> kw_power := Some (power self),
                                                      kw_smoothing := Some (smoothing self) \<rparr>))
                   x y z XI YI"
    by (rule idw_params_only) (simp_all add: engine_of_def get_default_def)
  moreover have "power self = Fin 2 \<and> smoothing self = Fin 0 \<longrightarrow>
              idw ext self x y z XI YI = idw ext (engine_of ''idw'' no_kwargs) x y z XI YI"
    by (auto intro!: idw_params_only simp: engine_of_def get_default_def no_kwargs_def)
  ultimately show ?thesis by blast
qed

lemma idw_default_cell:
  "idw raising_externals (engine_of ''idw'' no_kwargs) [Fin 0, Fin 0, Fin 3] [Fin 0, Fin 0, Fin 4]
       [Fin 1, Fin 5, Fin 3] [[Fin 0]] [[Fin 0]] = [[Fin 1]]"
  by (simp add: idw_def idw_cell_def idw_distances_def engine_of_def no_kwargs_def get_default_def
      fl_sq_def fl_sub_def sqrt_25 rnd_eval)

theorem rbf_falls_back_witness:
  "rbf raising_externals (engine_of ''rbf_linear'' no_kwargs)
       [Fin 0, Fin 0, Fin 3] [Fin 0, Fin 0, Fin 4] [Fin 1, Fin 5, Fin 3] [[Fin 0]] [[Fin 0]]
     = ([[Fin 1]], [''RBF interpolation failed: Matrix is singular.. Falling back to IDW.''])"
proof -
  have "Rbf raising_externals [Fin 0, Fin 0, Fin 3] [Fin 0, Fin 0, Fin 4] [Fin 1, Fin 5, Fin 3]
          (get_default (map_of function_map (method_id (engine_of ''rbf_linear'' no_kwargs))) ''multiquadric'')
          (rbf_smooth (engine_of ''rbf_linear'' no_kwargs)) [[Fin 0]] [[Fin 0]] = Inl ''Matrix is singular.''"
    by (simp add: raising_externals_def)
  from rbf_falls_back_to_engine_idw [OF this]
  have r: "rbf raising_externals (engine_of ''rbf_linear'' no_kwargs)
             [Fin 0, Fin 0, Fin 3] [Fin 0, Fin 0, Fin 4] [Fin 1, Fin 5, Fin 3] [[Fin 0]] [[Fin 0]]
           = (idw raising_externals (engine_of ''rbf_linear'' no_kwargs)
                [Fin 0, Fin 0, Fin 3] [Fin 0, Fin 0, Fin 4] [Fin 1, Fin 5, Fin 3] [[Fin 0]] [[Fin 0]],
              [''RBF interpolation failed: '' @ ''Matrix is singular.'' @ ''. Falling back to IDW.''])"
    and d: "power (engine_of ''rbf_linear'' no_kwargs) = Fin 2
              \<and> smoothing (engine_of ''rbf_linear'' no_kwargs) = Fin 0 \<longrightarrow>
            idw raising_externals (engine_of ''rbf_linear'' no_kwargs)
                [Fin 0, Fin 0, Fin 3] [Fin 0, Fin 0, Fin 4] [Fin 1, Fin 5, Fin 3] [[Fin 0]] [[Fin 0]]
          = idw raising_externals (engine_of ''idw'' no_kwargs)
                [Fin 0, Fin 0, Fin 3] [Fin 0, Fin 0, Fin 4] [Fin 1, Fin 5, Fin 3] [[Fin 0]] [[Fin 0]]"
    by blast+
  have "power (engine_of ''rbf_linear'' no_kwargs) = Fin 2
          \<and> smoothing (engine_of ''rbf_linear'' no_kwargs) = Fin 0"
    by (simp add: engine_of_def no_kwargs_def get_default_def)
  with d r show ?thesis
    by (simp add: idw_default_cell)
qed

text \<open>
  The claim as stated fails: an RBF engine built with power 0 and smoothing 1 falls
  back to IDW with these, which gives 3 at a grid point where IDW with default
  parameters gives 1.
\<close>

theorem rbf_fallback_not_default:
  "fst (rbf raising_externals
          (engine_of ''rbf_linear''
             (no_kwargs \<lparr> kw_power := Some (Fin 0), kw_smoothing := Some (Fin 1) \<rparr>))
          [Fin 0, Fin 0, Fin 3] [Fin 0, Fin 0, Fin 4] [Fin 1, Fin 5, Fin 3] [[Fin 0]] [[Fin 0]])
     = [[Fin 3]]
   \<and> idw raising_externals (engine_of ''idw'' no_kwargs)
       [Fin 0, Fin 0, Fin 3] [Fin 0, Fin 0, Fin 4] [Fin 1, Fin 5, Fin 3] [[Fin 0]] [[Fin 0]]
     = [[Fin 1]]"
  by (simp add: rbf_def raising_externals_def idw_def idw_cell_def idw_distances_def
      idw_weights_def engine_of_def no_kwargs_def get_default_def fl_sq_def fl_sub_def sqrt_25
      np_sum_def fl_pow_def rnd_eval)

section \<open>The extrapolation mask at the threshold\<close>

text \<open>
  Claim C5. The grid point \<open>(0, 0)\<close> is at distance 5 from the only sample \<open>(3, 4)\<close>.
  With the threshold 5 the distance does not exceed the threshold, and the mask
  replaces the value 7 of the cell by NaN all the same: the test of the module is
  \<open>min_distances < max_distance\<close>.
\<close>

theorem mask_at_threshold:
  "mask_extrapolation_regions [[Fin 0]] [[Fin 0]] [[Fin 7]] [(Fin 3, Fin 4)] (Fin 5)
     = Inr [[NaN]]"
  by (simp add: mask_extrapolation_regions_def min_distance_def euclidean_def fl_sq_def
        fl_sub_def sqrt_25 rnd_eval)

section \<open>The bounds and the coordinate sequences\<close>
















section \<open>Inverse distance weighting on finite samples\<close>
































end
